theory Spec2Isabelle
  imports Main "HOL-Library.Sublist"
begin

section \<open>saucebot: the sauce cog (saucebot/cogs/sauce.py)\<close>

text \<open>
  The cog's two commands, \<open>sauce\<close> and \<open>apikey\<close>, and the helpers they call, as functions
  over an explicit world: the three tables of the store, and the list of calls made to the
  chat platform and to the remote services, in the order the code makes them. What the
  collaborators answer (reactions, search results, the credential test) is an input.
  An exception is a value: a function that can raise returns \<open>error + 'a\<close>, and the world
  it returns with an error holds every effect made before the raise.
  The checks that discord.py runs before a command's body (cooldown, permissions) and the
  handler \<open>sauce_error\<close> for their failures are not part of the bodies modelled here.
\<close>

subsection \<open>Python values\<close>

text \<open>
  The exceptions that matter: three built-in ones, the four specific exceptions of the
  primary service's client library and their base class \<open>SauceNaoException\<close> (here: any
  other exception of that library), and \<open>OtherException\<close> for every exception outside that
  hierarchy, such as a network error of another client.
\<close>

datatype error =
    AttributeError
  | TypeError
  | IndexError
  | ValueError
  | ShortLimitReachedException
  | DailyLimitReachedException
  | InvalidOrWrongApiKeyException
  | InvalidImageException
  | SauceNaoException
  | OtherException

text \<open>\<open>bool(s)\<close> of an optional string: None and the empty string are false.\<close>

fun truthy :: "string option \<Rightarrow> bool" where
  "truthy None = False"
| "truthy (Some s) = (s \<noteq> [])"

text \<open>\<open>str.endswith(tuple)\<close>: some member of the tuple is a suffix.\<close>

definition endswith :: "string \<Rightarrow> string list \<Rightarrow> bool" where
  "endswith s sufs = list_ex (\<lambda>suf. suffix suf s) sufs"

text \<open>\<open>xs[i]\<close>: a negative index counts from the end, an index out of range raises.\<close>

definition py_index :: "'a list \<Rightarrow> int \<Rightarrow> error + 'a" where
  "py_index xs i =
     (if 0 \<le> i \<and> i < int (length xs) then Inr (xs ! nat i)
      else if - int (length xs) \<le> i \<and> i < 0 then Inr (xs ! nat (int (length xs) + i))
      else Inl IndexError)"

text \<open>\<open>str(n)\<close> of a non-negative integer: its decimal digits.\<close>

definition digit_char :: "nat \<Rightarrow> char" where
  "digit_char d = char_of (48 + d)"

fun str_nat :: "nat \<Rightarrow> string" where
  "str_nat n = (if n < 10 then [digit_char n] else str_nat (n div 10) @ [digit_char (n mod 10)])"

declare str_nat.simps [simp del]

subsection \<open>The two regular expressions\<close>

text \<open>
  Python's \<open>$\<close> (without MULTILINE) matches at the end of the string and also just before
  a newline that is the string's last character. \<open>re.match\<close> with \<open>^...$\<close> therefore
  accepts \<open>t\<close> and \<open>t + "\n"\<close> for every \<open>t\<close> the body accepts in full.
\<close>

definition newline :: char where
  "newline = CHR 0x0A"

definition dollar_candidates :: "string \<Rightarrow> string list" where
  "dollar_candidates s =
     (if s \<noteq> [] \<and> last s = newline then [s, butlast s] else [s])"

text \<open>\<open>[a-zA-Z0-9]\<close>\<close>

definition alnum :: "char \<Rightarrow> bool" where
  "alnum c = (let k = of_char c :: nat in
     (97 \<le> k \<and> k \<le> 122) \<or> (65 \<le> k \<and> k \<le> 90) \<or> (48 \<le> k \<and> k \<le> 57))"

text \<open>\<open>self._re_api_key = re.compile(r"^[a-zA-Z0-9]{40}$")\<close>, used with \<open>.match\<close>.\<close>

definition re_api_key_match :: "string \<Rightarrow> bool" where
  "re_api_key_match s =
     list_ex (\<lambda>t. length t = 40 \<and> list_all alnum t) (dollar_candidates s)"

text \<open>
  \<open>\s\<close> of a text pattern, on the code points below 256 (a \<open>char\<close> stands for one code
  point): tab, line feed, vertical tab, form feed, carriage return, the four separators
  0x1C to 0x1F, space, next line (0x85) and no-break space (0xA0). \<open>\S\<close> is its
  complement.
\<close>

definition whitespace :: "char \<Rightarrow> bool" where
  "whitespace c = (let k = of_char c :: nat in
     (9 \<le> k \<and> k \<le> 13) \<or> (28 \<le> k \<and> k \<le> 32) \<or> k = 133 \<or> k = 160)"

text \<open>
  \<open>IMAGE_URL_RE = re.compile(r"^https?://\S+(\.jpg|\.png|\.jpeg|\.webp)$")\<close>.
  After the scheme, the rest is free of whitespace, ends with one of the four extensions,
  and is longer than that extension (\<open>\S+\<close> takes at least one character).
\<close>

definition image_url_body :: "string \<Rightarrow> bool" where
  "image_url_body r =
     (list_all (\<lambda>c. \<not> whitespace c) r \<and>
      list_ex (\<lambda>ext. suffix ext r \<and> length ext < length r)
        [''.jpg'', ''.png'', ''.jpeg'', ''.webp''])"

definition IMAGE_URL_RE_match :: "string \<Rightarrow> bool" where
  "IMAGE_URL_RE_match s =
     list_ex (\<lambda>t.
        (prefix ''https://'' t \<and> image_url_body (drop 8 t)) \<or>
        (prefix ''http://'' t \<and> image_url_body (drop 7 t)))
       (dollar_candidates s)"

subsection \<open>Messages and attachments\<close>

text \<open>
  \<open>discord.Attachment\<close> and \<open>discord.Message\<close>. Of an attachment the cog reads \<open>url\<close> and
  \<open>proxy_url\<close>; it tests the extension on \<open>url\<close>, not on \<open>filename\<close>.
\<close>

record attachment =
  filename :: string
  url :: string
  proxy_url :: string

datatype emoji = Keycap nat | OtherEmoji string

record reaction_add =
  reaction_user :: nat
  reaction_emoji :: emoji

record message_data =
  message_id :: nat
  attachments :: "attachment list"
  content :: string

text \<open>
  \<open>message.reference\<close> is None or a reference whose \<open>resolved\<close> is a message, a
  deleted-message marker, or None.
\<close>

datatype resolved = ResolvedMessage message_data | DeletedReferencedMessage | NotResolved

text \<open>\<open>Sauce._get_attachment_image\<close>\<close>

definition get_attachment_image :: "attachment \<Rightarrow> string option" where
  "get_attachment_image a =
     (if url a = [] then None
      else if url a \<noteq> [] \<and> endswith (url a) [''.jpg'', ''.png'', ''.gif'', ''.jpeg'', ''.webp'']
        then Some (url a)
      else if url a \<noteq> [] \<and> endswith (url a) [''.mp4'', ''.webm'', ''.mov'']
        then Some (proxy_url a @ ''?format=jpeg'')
      else None)"

text \<open>\<open>Sauce._get_image_attachments\<close>\<close>

definition get_image_attachments :: "message_data \<Rightarrow> attachment list" where
  "get_image_attachments m = filter (\<lambda>a. truthy (get_attachment_image a)) (attachments m)"

subsection \<open>Results of the primary service\<close>

text \<open>
  A result of the primary service is an object of one of five container classes of the
  client library, built from the two dictionaries of the service's answer as
  \<open>container(header, data)\<close>. The typed fields of the data model (title, similarity,
  episode, ...) are read from these two dictionaries by the library.
\<close>

datatype variant_tag = GenericSource | AnimeSource | VideoSource | MangaSource | BooruSource

type_synonym dict = "(string \<times> string) list"

record sauce_result =
  variant :: variant_tag
  header :: dict
  data :: dict

text \<open>\<open>type(sauce).__name__\<close>, and \<open>getattr(pysaucenao.containers, name)\<close>.\<close>

fun class_name :: "variant_tag \<Rightarrow> string" where
  "class_name GenericSource = ''GenericSource''"
| "class_name AnimeSource = ''AnimeSource''"
| "class_name VideoSource = ''VideoSource''"
| "class_name MangaSource = ''MangaSource''"
| "class_name BooruSource = ''BooruSource''"

definition containers_getattr :: "string \<Rightarrow> error + variant_tag" where
  "containers_getattr name =
     (case find (\<lambda>v. class_name v = name)
             [GenericSource, AnimeSource, VideoSource, MangaSource, BooruSource] of
        None \<Rightarrow> Inl AttributeError
      | Some v \<Rightarrow> Inr v)"

definition container :: "variant_tag \<Rightarrow> dict \<Rightarrow> dict \<Rightarrow> sauce_result" where
  "container v h d = \<lparr>variant = v, header = h, data = d\<rparr>"

subsection \<open>The store (saucebot.models.database)\<close>

record cache_entry =
  result_class :: string
  cached_header :: dict
  cached_result :: dict
  created_at :: nat

record query_log_entry =
  query_user :: nat
  query_guild :: nat
  query_url :: string
  query_time :: nat

datatype embed =
    BasicEmbed string
  | NotFoundEmbed string
  | SauceEmbed sauce_result

text \<open>
  The calls the cog makes on its collaborators. \<open>BasicEmbed k\<close> is the embed whose
  description is the localized string of key \<open>k\<close>; \<open>Reply e f\<close> is
  \<open>ctx.reply(embed=e, file=f)\<close>, \<open>MessageDelete\<close> is \<open>ctx.message.delete()\<close>.
\<close>

datatype call =
    Reply embed "string option"
  | Send embed
  | MessageDelete
  | PromptSend
  | AddReaction emoji
  | WaitFor nat
  | PromptDelete
  | ChannelHistory nat
  | LookupGuild nat
  | QueriesLog nat nat string
  | UserCount nat
  | CacheFetch string
  | CacheAddOrUpdate string
  | FromUrl string "string option"
  | TraceMoeSearch string
  | LoadIds
  | VideoPreviewNatural
  | SauceNaoTest string
  | ServersRegister nat string

record world =
  queries :: "query_log_entry list"
  cache :: "string \<rightharpoonup> cache_entry"
  servers :: "nat \<rightharpoonup> string"
  clock :: nat
  calls :: "call list"

definition call :: "call \<Rightarrow> world \<Rightarrow> world" where
  "call c w = w\<lparr>calls := calls w @ [c]\<rparr>"

text \<open>
  Modelled from the spec: \<open>Servers.lookup_guild\<close> and \<open>Servers.register\<close> of
  saucebot.models.database, which is not among the sources. GuildApiKey is keyed by the
  guild; registering overwrites any prior key.
\<close>

definition lookup_guild :: "nat \<Rightarrow> world \<Rightarrow> string option \<times> world" where
  "lookup_guild g w = (servers w g, call (LookupGuild g) w)"

definition register :: "nat \<Rightarrow> string \<Rightarrow> world \<Rightarrow> world" where
  "register g k w = call (ServersRegister g k) (w\<lparr>servers := (servers w)(g \<mapsto> k)\<rparr>)"

text \<open>
  Modelled from the spec: \<open>SauceQueries.log\<close> and \<open>SauceQueries.user_count\<close> of
  saucebot.models.database. QueryLogEntry is append-only (user, guild, URL, timestamp);
  the per-user count is a count query over the entries of that user.
\<close>

definition queries_log :: "nat \<Rightarrow> nat \<Rightarrow> string \<Rightarrow> world \<Rightarrow> world" where
  "queries_log user guild u w =
     call (QueriesLog user guild u)
       (w\<lparr>queries := queries w @
            [\<lparr>query_user = user, query_guild = guild, query_url = u, query_time = clock w\<rparr>]\<rparr>)"

definition user_count :: "nat \<Rightarrow> world \<Rightarrow> int" where
  "user_count user w = int (length (filter (\<lambda>q. query_user q = user) (queries w)))"

text \<open>
  Modelled from the spec: \<open>SauceCache.fetch\<close>, \<open>SauceCache.add_or_update\<close> and
  \<open>SauceCache.purge_cache\<close> of saucebot.models.database. CacheEntry is keyed by the URL
  (exact string match) and holds the variant tag, the serialized header and payload and
  the creation time; a write overwrites the entry of that URL; the purge deletes the
  entries older than 24 hours.
\<close>

definition cache_fetch :: "string \<Rightarrow> world \<Rightarrow> cache_entry option \<times> world" where
  "cache_fetch u w = (cache w u, call (CacheFetch u) w)"

definition add_or_update :: "string \<Rightarrow> sauce_result \<Rightarrow> world \<Rightarrow> world" where
  "add_or_update u s w =
     call (CacheAddOrUpdate u)
       (w\<lparr>cache := (cache w)(u \<mapsto>
            \<lparr>result_class = class_name (variant s), cached_header = header s,
             cached_result = data s, created_at = clock w\<rparr>)\<rparr>)"

definition purge_cache :: "world \<Rightarrow> world" where
  "purge_cache w =
     w\<lparr>cache := (\<lambda>u. case cache w u of
          None \<Rightarrow> None
        | Some e \<Rightarrow> if created_at e + 86400 < clock w then None else Some e)\<rparr>"

text \<open>The reconstruction of a cached result, as \<open>_get_sauce\<close> does it on a hit.\<close>

definition reconstruct :: "cache_entry \<Rightarrow> error + sauce_result" where
  "reconstruct e =
     (case containers_getattr (result_class e) of
        Inl err \<Rightarrow> Inl err
      | Inr v \<Rightarrow> Inr (container v (cached_header e) (cached_result e)))"

subsection \<open>Configuration, invocation context, collaborators' answers\<close>

record config =
  discord_channel_id :: "string option"
  member_api_limit :: "int option"
  saucenao_api_key :: "string option"
  tracemoe_token :: "string option"

record command_context =
  author_id :: nat
  bot_user_id :: nat
  channel_id :: nat
  channel_is_nsfw :: bool
  guild_id :: nat
  ctx_message :: message_data
  ctx_reference :: "resolved option"

record tracemoe_doc =
  doc_anilist_id :: int
  doc_is_adult :: bool

datatype account_type = ACCOUNT_UNREGISTERED | ACCOUNT_FREE | ACCOUNT_ENHANCED

record test_result =
  test_success :: bool
  test_account_type :: account_type

text \<open>
  What the collaborators answer during one invocation: the channel's messages, newest
  first; the \<open>reaction_add\<close> events on the prompt that arrive within the timeout, in
  order; \<open>validate_url\<close> of saucebot.helpers; the primary service's search (an exception
  or the ordered results) and credential test; the secondary service's search and clip
  download; and the library's lazy loading of the cross-reference identifiers.
\<close>

record collaborators =
  channel_messages :: "message_data list"
  reaction_events :: "reaction_add list"
  validate_url :: "string \<Rightarrow> bool"
  from_url :: "string \<Rightarrow> string option \<Rightarrow> error + sauce_result list"
  saucenao_test :: "string \<Rightarrow> test_result"
  tracemoe_search :: "string \<Rightarrow> error + tracemoe_doc list"
  tracemoe_video_preview_natural :: "error + string"
  load_ids :: "sauce_result \<Rightarrow> error + bool"
  anilist_id :: "sauce_result \<Rightarrow> int option"

subsection \<open>Helpers of saucebot.helpers\<close>

text \<open>
  Modelled from the spec: \<open>keycap_emoji\<close>, \<open>keycap_to_int\<close> and \<open>reaction_check\<close> of
  saucebot.helpers, which is not among the sources. The choices are numbered with
  distinct keycap emoji, and only a reaction of the invoking user with one of the offered
  emoji counts.
\<close>

definition keycap_emoji :: "nat \<Rightarrow> emoji" where
  "keycap_emoji i = Keycap i"

fun keycap_to_int :: "emoji \<Rightarrow> error + int" where
  "keycap_to_int (Keycap i) = Inr (int i)"
| "keycap_to_int (OtherEmoji s) = Inl ValueError"

definition reaction_check :: "nat list \<Rightarrow> emoji list \<Rightarrow> reaction_add \<Rightarrow> bool" where
  "reaction_check users emojis r =
     (reaction_user r \<in> set users \<and> reaction_emoji r \<in> set emojis)"

text \<open>
  \<open>bot.wait_for('reaction_add', timeout, check)\<close>: the first event that passes the check,
  or \<open>asyncio.TimeoutError\<close> (None) when none arrives in time.
\<close>

definition wait_for :: "(reaction_add \<Rightarrow> bool) \<Rightarrow> reaction_add list \<Rightarrow> reaction_add option" where
  "wait_for check events = find check events"

subsection \<open>The disambiguation prompt\<close>

text \<open>\<open>Sauce._index_prompt\<close>. The result None is the bare \<open>return\<close> of the timeout branch.\<close>

definition index_prompt ::
  "command_context \<Rightarrow> collaborators \<Rightarrow> 'a list \<Rightarrow> world \<Rightarrow> (error + 'a option) \<times> world" where
  "index_prompt ctx col items w =
     (let w1 = call PromptSend w;
          index_range = [1 ..< min (length items) 10 + 1];
          w2 = fold (\<lambda>index. call (AddReaction (keycap_emoji index))) index_range w1;
          check = reaction_check [author_id ctx] (map keycap_emoji index_range);
          w3 = call (WaitFor 60) w2
      in case wait_for check (reaction_events col) of
           None \<Rightarrow> (Inr None, call PromptDelete (call MessageDelete w3))
         | Some r \<Rightarrow>
             (let w4 = call PromptDelete w3
              in case keycap_to_int (reaction_emoji r) of
                   Inl e \<Rightarrow> (Inl e, w4)
                 | Inr k \<Rightarrow>
                     (case py_index items (k - 1) of
                        Inl e \<Rightarrow> (Inl e, w4)
                      | Inr item \<Rightarrow> (Inr (Some item), w4))))"

subsection \<open>The most recent image of the channel\<close>

text \<open>
  The loop of \<open>Sauce._get_last_image_post\<close> over the messages of the history. Reading
  \<open>.url\<close> of the None that a timed-out prompt returns raises AttributeError. Falling out
  of the loop returns None.
\<close>

fun last_image_loop ::
  "command_context \<Rightarrow> collaborators \<Rightarrow> message_data list \<Rightarrow> world \<Rightarrow> (error + string option) \<times> world" where
  "last_image_loop ctx col [] w = (Inr None, w)"
| "last_image_loop ctx col (m # ms) w =
     (let image_attachments = get_image_attachments m
      in if image_attachments \<noteq> [] then
           (case (if length image_attachments > 1
                  then index_prompt ctx col image_attachments w
                  else (Inr (Some (image_attachments ! 0)), w)) of
              (Inl e, w') \<Rightarrow> (Inl e, w')
            | (Inr None, w') \<Rightarrow> (Inl AttributeError, w')
            | (Inr (Some a), w') \<Rightarrow> (Inr (get_attachment_image a), w'))
         else if IMAGE_URL_RE_match (content m) then (Inr (Some (content m)), w)
         else last_image_loop ctx col ms w)"

text \<open>\<open>Sauce._get_last_image_post\<close>: \<open>ctx.channel.history(limit=50)\<close>, newest first.\<close>

definition get_last_image_post ::
  "command_context \<Rightarrow> collaborators \<Rightarrow> world \<Rightarrow> (error + string option) \<times> world" where
  "get_last_image_post ctx col w =
     last_image_loop ctx col (take 50 (channel_messages col)) (call (ChannelHistory 50) w)"

subsection \<open>The member limit\<close>

text \<open>
  \<open>Sauce._check_member_limited\<close>; \<open>config.getint(..., fallback=0)\<close> reads an unset option
  as 0, and \<open>not member_limit\<close> holds of 0 only.
\<close>

definition check_member_limited :: "config \<Rightarrow> command_context \<Rightarrow> world \<Rightarrow> bool \<times> world" where
  "check_member_limited cfg ctx w =
     (let member_limit = (case member_api_limit cfg of None \<Rightarrow> 0 | Some n \<Rightarrow> n)
      in if member_limit = 0 then (False, w)
         else (let count = user_count (author_id ctx) w
               in (count \<ge> member_limit, call (UserCount (author_id ctx)) w)))"

subsection \<open>The lookup\<close>

text \<open>\<open>Sauce._get_sauce\<close>\<close>

definition get_sauce ::
  "config \<Rightarrow> command_context \<Rightarrow> collaborators \<Rightarrow> string \<Rightarrow> world \<Rightarrow> (error + sauce_result option) \<times> world" where
  "get_sauce cfg ctx col u w =
     (let (guild_key, w1) = lookup_guild (guild_id ctx) w;
          api_key = (if truthy guild_key then guild_key else saucenao_api_key cfg);
          w2 = queries_log (author_id ctx) (guild_id ctx) u w1;
          (cached, w3) = cache_fetch u w2
      in case cached of
           Some entry \<Rightarrow>
             (case reconstruct entry of
                Inl e \<Rightarrow> (Inl e, w3)
              | Inr sauce \<Rightarrow> (Inr (Some sauce), w3))
         | None \<Rightarrow>
             (let w4 = call (FromUrl u api_key) w3
              in case from_url col u api_key of
                   Inl e \<Rightarrow> (Inl e, w4)
                 | Inr results \<Rightarrow>
                     (case results of
                        [] \<Rightarrow> (Inr None, w4)
                      | sauce # rest \<Rightarrow> (Inr (Some sauce), add_or_update u sauce w4))))"

subsection \<open>The preview clip\<close>

text \<open>
  \<open>Sauce._video_preview\<close>. \<open>self.tracemoe\<close> is set when the configured token is truthy
  (\<open>ready_tracemoe\<close>). Only the search is inside the \<open>try\<close>; the loading of the identifiers
  and the download are outside.
\<close>

definition video_preview ::
  "config \<Rightarrow> collaborators \<Rightarrow> sauce_result \<Rightarrow> string \<Rightarrow> world \<Rightarrow> (error + string option \<times> bool) \<times> world" where
  "video_preview cfg col sauce path w =
     (if \<not> truthy (tracemoe_token cfg) then (Inr (None, False), w)
      else
        (let w1 = call (TraceMoeSearch path) w
         in case tracemoe_search col path of
              Inl e \<Rightarrow> (Inr (None, False), w1)
            | Inr docs \<Rightarrow>
                (case docs of
                   [] \<Rightarrow> (Inr (None, False), w1)
                 | doc # rest \<Rightarrow>
                     (let w2 = call LoadIds w1
                      in case load_ids col sauce of
                           Inl e \<Rightarrow> (Inl e, w2)
                         | Inr loaded \<Rightarrow>
                             if loaded then
                               if anilist_id col sauce \<noteq> Some (doc_anilist_id doc)
                               then (Inr (None, False), w2)
                               else
                                 (let w3 = call VideoPreviewNatural w2
                                  in case tracemoe_video_preview_natural col of
                                       Inl e \<Rightarrow> (Inl e, w3)
                                     | Inr clip \<Rightarrow> (Inr (Some clip, doc_is_adult doc), w3))
                             else (Inr (None, False), w2)))))"

text \<open>
  \<open>Sauce._build_sauce_embed\<close>, as far as its effects go: for an anime result it loads the
  identifiers. The embed is identified by the result it renders.
\<close>

definition build_sauce_embed :: "collaborators \<Rightarrow> sauce_result \<Rightarrow> world \<Rightarrow> (error + embed) \<times> world" where
  "build_sauce_embed col sauce w =
     (if variant sauce = AnimeSource then
        (let w1 = call LoadIds w
         in case load_ids col sauce of
              Inl e \<Rightarrow> (Inl e, w1)
            | Inr loaded \<Rightarrow> (Inr (SauceEmbed sauce), w1))
      else (Inr (SauceEmbed sauce), w))"

subsection \<open>The sauce command\<close>

text \<open>
  The body of \<open>Sauce.sauce\<close>, in its three parts: the gate on channel and author, the
  resolution of the image (down to the second \<open>no_images\<close> reply), and the lookup with its
  reply. A command ends by returning or by raising; the resolution either ends the command
  or goes on with the URL it found.
\<close>

datatype outcome = Returned | Raised error

datatype resolution = Resolved string | Ended outcome

definition image_in_command :: "command_context \<Rightarrow> string option \<Rightarrow> bool" where
  "image_in_command ctx url_arg = (truthy url_arg \<or> get_image_attachments (ctx_message ctx) \<noteq> [])"

text \<open>
  The body of \<open>if ctx.message.reference and not image_in_command\<close> up to the assignment of
  \<open>url\<close>: the attachments of the message replied to.
\<close>

definition sauce_reference ::
  "command_context \<Rightarrow> collaborators \<Rightarrow> string option \<Rightarrow> world \<Rightarrow> (error + string option) \<times> world" where
  "sauce_reference ctx col url_arg w =
     (case ctx_reference ctx of
        Some (ResolvedMessage reference) \<Rightarrow>
          (let image_attachments = get_image_attachments reference
           in if image_attachments \<noteq> [] then
                if length image_attachments > 1 then
                  (case index_prompt ctx col image_attachments w of
                     (Inl e, w') \<Rightarrow> (Inl e, w')
                   | (Inr None, w') \<Rightarrow> (Inl AttributeError, w')
                   | (Inr (Some a), w') \<Rightarrow> (Inr (Some (url a)), w'))
                else (Inr (Some (url (image_attachments ! 0))), w)
              else (Inr url_arg, w))
      | _ \<Rightarrow> (Inr url_arg, w))"

definition no_images_reply :: "world \<Rightarrow> world" where
  "no_images_reply w = call (Reply (BasicEmbed ''no_images'') None) w"

definition sauce_resolve ::
  "command_context \<Rightarrow> collaborators \<Rightarrow> string option \<Rightarrow> world \<Rightarrow> resolution \<times> world" where
  "sauce_resolve ctx col url_arg w =
     (case (if ctx_reference ctx \<noteq> None \<and> \<not> image_in_command ctx url_arg then
              (case sauce_reference ctx col url_arg w of
                 (Inl e, w1) \<Rightarrow> (Inl (Raised e), w1)
               | (Inr url1, w1) \<Rightarrow>
                   if \<not> truthy url1 then (Inl Returned, no_images_reply w1)
                   else (Inr url1, w1))
            else (Inr url_arg, w)) of
        (Inl out, w1) \<Rightarrow> (Ended out, w1)
      | (Inr url1, w1) \<Rightarrow>
          (case (if truthy url1 then (Inr url1, w1) else get_last_image_post ctx col w1) of
             (Inl e, w2) \<Rightarrow> (Ended (Raised e), w2)
           | (Inr None, w2) \<Rightarrow> (Ended Returned, no_images_reply w2)
           | (Inr (Some u), w2) \<Rightarrow>
               if u = [] then (Ended Returned, no_images_reply w2)
               else (Resolved u, w2)))"

text \<open>
  The preview of an anime result: the clip is attached unless it is flagged explicit and
  the channel is not.
\<close>

definition sauce_preview ::
  "config \<Rightarrow> command_context \<Rightarrow> collaborators \<Rightarrow> sauce_result option \<Rightarrow> string \<Rightarrow> world
     \<Rightarrow> (error + string option) \<times> world" where
  "sauce_preview cfg ctx col sauce u w =
     (case sauce of
        None \<Rightarrow> (Inr None, w)
      | Some s \<Rightarrow>
          if variant s = AnimeSource then
            (case video_preview cfg col s u w of
               (Inl e, w') \<Rightarrow> (Inl e, w')
             | (Inr (preview_file, nsfw), w') \<Rightarrow>
                 if truthy preview_file then
                   if nsfw \<and> \<not> channel_is_nsfw ctx then (Inr None, w')
                   else (Inr preview_file, w')
                 else (Inr None, w'))
          else (Inr None, w))"

definition sauce_lookup ::
  "config \<Rightarrow> command_context \<Rightarrow> collaborators \<Rightarrow> string option \<Rightarrow> string \<Rightarrow> world \<Rightarrow> outcome \<times> world" where
  "sauce_lookup cfg ctx col url_arg u w =
     (if \<not> validate_url col u then (Returned, call (Reply (BasicEmbed ''bad_url'') None) w)
      else
        (let (limited, w1) = check_member_limited cfg ctx w
         in if limited
            then (Returned, call (Reply (BasicEmbed ''member_api_limit_exceeded'') None) w1)
            else
              (case get_sauce cfg ctx col u w1 of
                 (Inl e, w2) \<Rightarrow>
                   if e = ShortLimitReachedException \<or> e = DailyLimitReachedException then
                     (Returned, call (Reply (BasicEmbed ''api_limit_exceeded'') None) (call MessageDelete w2))
                   else if e = InvalidOrWrongApiKeyException then
                     (Returned, call (Reply (BasicEmbed ''rejected_api_key'') None) (call MessageDelete w2))
                   else if e = InvalidImageException then
                     (Returned, call (Reply (BasicEmbed ''no_images'') None) (call MessageDelete w2))
                   else if e = SauceNaoException then
                     (Returned, call (Reply (BasicEmbed ''api_offline'') None) (call MessageDelete w2))
                   else (Raised e, w2)
               | (Inr sauce, w2) \<Rightarrow>
                   (case sauce_preview cfg ctx col sauce u w2 of
                      (Inl e, w3) \<Rightarrow> (Raised e, w3)
                    | (Inr preview, w3) \<Rightarrow>
                        (case sauce of
                           None \<Rightarrow> (Returned, call (Reply (NotFoundEmbed u) None) w3)
                         | Some s \<Rightarrow>
                             (case build_sauce_embed col s w3 of
                                (Inl e, w4) \<Rightarrow> (Raised e, w4)
                              | (Inr e, w4) \<Rightarrow>
                                  (let w5 = call (Reply e preview) w4
                                   in if \<not> image_in_command ctx url_arg \<and> ctx_reference ctx = None
                                      then (Returned, call MessageDelete w5)
                                      else (Returned, w5))))))))"

text \<open>
  \<open>Sauce.sauce\<close>. \<open>config.get('Discord', 'channel_id', fallback=None)\<close> is None when the
  option is unset, and \<open>str(channel_id) not in None\<close> raises TypeError; on a string,
  \<open>in\<close> is the substring test.
\<close>

definition sauce ::
  "config \<Rightarrow> command_context \<Rightarrow> collaborators \<Rightarrow> string option \<Rightarrow> world \<Rightarrow> outcome \<times> world" where
  "sauce cfg ctx col url_arg w =
     (case discord_channel_id cfg of
        None \<Rightarrow> (Raised TypeError, w)
      | Some target_channel_id \<Rightarrow>
          if \<not> sublist (str_nat (channel_id ctx)) target_channel_id \<or> author_id ctx = bot_user_id ctx
          then (Returned, w)
          else
            (case sauce_resolve ctx col url_arg w of
               (Ended out, w1) \<Rightarrow> (out, w1)
             | (Resolved u, w1) \<Rightarrow> sauce_lookup cfg ctx col url_arg u w1))"

subsection \<open>The apikey command\<close>

text \<open>\<open>Sauce.apikey\<close>\<close>

definition apikey :: "command_context \<Rightarrow> collaborators \<Rightarrow> string \<Rightarrow> world \<Rightarrow> outcome \<times> world" where
  "apikey ctx col api_key w =
     (let w1 = call MessageDelete w
      in if \<not> re_api_key_match api_key then (Returned, call (Send (BasicEmbed ''bad_api_key'')) w1)
         else
           (let w2 = call (SauceNaoTest api_key) w1;
                test = saucenao_test col api_key
            in if \<not> test_success test then (Returned, call (Send (BasicEmbed ''api_offline'')) w2)
               else if test_account_type test \<noteq> ACCOUNT_ENHANCED
               then (Returned, call (Send (BasicEmbed ''api_free'')) w2)
               else (Returned,
                     call (Send (BasicEmbed ''registered_api_key'')) (register (guild_id ctx) api_key w2))))"

subsection \<open>Observations on worlds\<close>

text \<open>
  The calls of the lookup service and of everything after it: the store's guild, log and
  cache operations, the remote search, and the calls for the preview.
\<close>

fun lookup_call :: "call \<Rightarrow> bool" where
  "lookup_call (LookupGuild g) = True"
| "lookup_call (QueriesLog a g u) = True"
| "lookup_call (CacheFetch u) = True"
| "lookup_call (CacheAddOrUpdate u) = True"
| "lookup_call (FromUrl u k) = True"
| "lookup_call (TraceMoeSearch u) = True"
| "lookup_call LoadIds = True"
| "lookup_call VideoPreviewNatural = True"
| "lookup_call c = False"

text \<open>\<open>w'\<close> has the store of \<open>w\<close> and no lookup call that \<open>w\<close> has not.\<close>

definition untouched :: "world \<Rightarrow> world \<Rightarrow> bool" where
  "untouched w w' =
     (queries w' = queries w \<and> cache w' = cache w \<and> servers w' = servers w \<and> clock w' = clock w
      \<and> filter lookup_call (calls w') = filter lookup_call (calls w))"

subsection \<open>Concrete invocations\<close>

definition fresh_world :: world where
  "fresh_world = \<lparr>queries = [], cache = Map.empty, servers = Map.empty, clock = 0, calls = []\<rparr>"

definition logged_world :: "nat \<Rightarrow> world" where
  "logged_world user = fresh_world\<lparr>queries :=
     map (\<lambda>u. \<lparr>query_user = user, query_guild = 3, query_url = u, query_time = 0\<rparr>)
       [''https://x/1.png'', ''https://x/2.png'', ''https://x/3.png'', ''https://x/4.png'',
        ''https://x/5.png'']\<rparr>"

definition example_config :: config where
  "example_config = \<lparr>discord_channel_id = Some ''42'', member_api_limit = None,
     saucenao_api_key = Some ''shared'', tracemoe_token = Some ''token''\<rparr>"

definition example_collaborators :: collaborators where
  "example_collaborators = \<lparr>channel_messages = [], reaction_events = [],
     validate_url = (\<lambda>u. True),
     from_url = (\<lambda>u k. Inr []),
     saucenao_test = (\<lambda>k. \<lparr>test_success = True, test_account_type = ACCOUNT_ENHANCED\<rparr>),
     tracemoe_search = (\<lambda>u. Inr []),
     tracemoe_video_preview_natural = Inl OtherException,
     load_ids = (\<lambda>s. Inr True),
     anilist_id = (\<lambda>s. Some 100)\<rparr>"

definition example_message :: "attachment list \<Rightarrow> message_data" where
  "example_message atts = \<lparr>message_id = 100, attachments = atts, content = []\<rparr>"

definition example_context :: "attachment list \<Rightarrow> resolved option \<Rightarrow> command_context" where
  "example_context atts r = \<lparr>author_id = 7, bot_user_id = 1, channel_id = 42, channel_is_nsfw = False,
     guild_id = 3, ctx_message = example_message atts, ctx_reference = r\<rparr>"

definition b_jpg :: attachment where
  "b_jpg = \<lparr>filename = ''b.jpg'', url = ''https://cdn/b.jpg'', proxy_url = ''https://media/b.jpg''\<rparr>"

definition c_png :: attachment where
  "c_png = \<lparr>filename = ''c.png'', url = ''https://cdn/c.png'', proxy_url = ''https://media/c.png''\<rparr>"

definition v_mp4 :: attachment where
  "v_mp4 = \<lparr>filename = ''v.mp4'', url = ''https://cdn/v.mp4'', proxy_url = ''https://media/v.mp4''\<rparr>"

definition anime_result :: sauce_result where
  "anime_result = \<lparr>variant = AnimeSource, header = [(''similarity'', ''91.5'')],
     data = [(''anidb_aid'', ''1'')]\<rparr>"

definition tracemoe_match :: "int \<Rightarrow> tracemoe_doc" where
  "tracemoe_match i = \<lparr>doc_anilist_id = i, doc_is_adult = False\<rparr>"

text \<open>
  The primary service finds the anime result, whose anilist identifier loads as 100; the
  secondary service's top match has identifier \<open>i\<close>; the download of the clip fails.
\<close>

definition anime_collaborators :: "int \<Rightarrow> collaborators" where
  "anime_collaborators i = example_collaborators
     \<lparr>from_url := (\<lambda>u k. Inr [anime_result]), tracemoe_search := (\<lambda>u. Inr [tracemoe_match i])\<rparr>"

definition failing_collaborators :: collaborators where
  "failing_collaborators = example_collaborators\<lparr>from_url := (\<lambda>u k. Inl DailyLimitReachedException)\<rparr>"

text \<open>Forty letters and a final line feed.\<close>

definition newline_key :: string where
  "newline_key = ''aaaaaaaaaaaaaaaaaaaaaaaaaaaaaaaaaaaaaaaa'' @ [newline]"

section \<open>Properties\<close>

subsection \<open>Evaluation facts\<close>

lemmas examples = fresh_world_def logged_world_def example_config_def example_collaborators_def
  example_message_def example_context_def b_jpg_def c_png_def v_mp4_def anime_result_def
  tracemoe_match_def anime_collaborators_def failing_collaborators_def

lemmas attachment_simps = get_image_attachments_def get_attachment_image_def endswith_def
  suffix_to_prefix

lemma str_nat_42: "str_nat 42 = ''42''"
  by code_simp

lemma keycap_emoji_eq: "keycap_emoji = Keycap"
  by (rule ext) (simp add: keycap_emoji_def)

lemma fold_call: "fold (\<lambda>i. call (f i)) xs w = w\<lparr>calls := calls w @ map f xs\<rparr>"
  by (induction xs arbitrary: w) (simp_all add: call_def)

subsection \<open>The gate\<close>

text \<open>
  With the target-channel option set: when the decimal channel ID is not contained in it
  (as a substring), or the author is the bot itself, the command returns at once with the
  world as it was: no reply, no resolution, no logged query, no error.
\<close>

lemma sauce_gate_returns:
  assumes "discord_channel_id cfg = Some target"
    and "\<not> sublist (str_nat (channel_id ctx)) target \<or> author_id ctx = bot_user_id ctx"
  shows "sauce cfg ctx col url_arg w = (Returned, w)"
  using assms by (simp add: sauce_def)

lemma sauce_gate_returns_example:
  "sauce (example_config\<lparr>discord_channel_id := Some ''1337''\<rparr>) (example_context [b_jpg] None)
     example_collaborators (Some ''https://x/a.png'') fresh_world = (Returned, fresh_world)"
  by (simp add: sauce_def example_context_def str_nat_42 sublist_code)

text \<open>
  C10, where the code departs from it. The option is read with \<open>fallback=None\<close>, and with
  the option unset the membership test itself raises: every invocation, one by the bot
  itself included, ends with TypeError before the author is compared. Nothing else
  happens, the world is as it was, but an error is signalled.
\<close>

theorem sauce_gate_unset_raises:
  assumes "discord_channel_id cfg = None"
  shows "sauce cfg ctx col url_arg w = (Raised TypeError, w)"
  using assms by (simp add: sauce_def)

text \<open>C10 at a failing input: the option unset, and the bot itself the author.\<close>

theorem sauce_gate_unset_raises_witness:
  "discord_channel_id (example_config\<lparr>discord_channel_id := None\<rparr>) = None
   \<and> author_id ((example_context [] None)\<lparr>author_id := 1\<rparr>)
       = bot_user_id ((example_context [] None)\<lparr>author_id := 1\<rparr>)
   \<and> sauce (example_config\<lparr>discord_channel_id := None\<rparr>)
        ((example_context [] None)\<lparr>author_id := 1\<rparr>) example_collaborators None fresh_world
       = (Raised TypeError, fresh_world)"
proof -
  have a: "discord_channel_id (example_config\<lparr>discord_channel_id := None\<rparr>) = None"
    by simp
  have b: "author_id ((example_context [] None)\<lparr>author_id := 1\<rparr>)
       = bot_user_id ((example_context [] None)\<lparr>author_id := 1\<rparr>)"
    by (simp add: example_context_def)
  show ?thesis
    using a b
      sauce_gate_unset_raises [OF a, of "(example_context [] None)\<lparr>author_id := 1\<rparr>"
        example_collaborators None fresh_world]
    by simp
qed

subsection \<open>Resolution\<close>

text \<open>
  C1, as stated, fails: with the URL \<open>https://x/a.png\<close> and the qualifying attachment
  \<open>b.jpg\<close> in one invocation, the resolver yields the URL, not the attachment.
\<close>

theorem attachment_precedence_counterexample:
  "get_image_attachments (ctx_message (example_context [b_jpg] None)) = [b_jpg]
   \<and> get_attachment_image b_jpg = Some ''https://cdn/b.jpg''
   \<and> fst (sauce_resolve (example_context [b_jpg] None) example_collaborators
        (Some ''https://x/a.png'') fresh_world) = Resolved ''https://x/a.png''
   \<and> fst (sauce_resolve (example_context [b_jpg] None) example_collaborators
        (Some ''https://x/a.png'') fresh_world) \<noteq> Resolved ''https://cdn/b.jpg''"
  by (simp add: sauce_resolve_def image_in_command_def examples attachment_simps)

text \<open>
  C1, amended. A non-empty explicit URL is the image source, whatever the attachments of
  the invoking message, the message replied to and the channel's history are; the
  resolver makes no call at all.
\<close>

theorem explicit_url_wins:
  assumes "u \<noteq> []"
  shows "sauce_resolve ctx col (Some u) w = (Resolved u, w)"
  using assms by (simp add: sauce_resolve_def image_in_command_def)

text \<open>Witness of the amended C1: the URL \<open>https://x/a.png\<close> beside the attachment \<open>b.jpg\<close>.\<close>

theorem explicit_url_wins_witness:
  "''https://x/a.png'' \<noteq> []
   \<and> get_image_attachments (ctx_message (example_context [b_jpg] None)) = [b_jpg]
   \<and> sauce_resolve (example_context [b_jpg] None) example_collaborators (Some ''https://x/a.png'')
        fresh_world = (Resolved ''https://x/a.png'', fresh_world)"
  using explicit_url_wins [of "''https://x/a.png''" "example_context [b_jpg] None"
      example_collaborators fresh_world]
  by (simp add: examples attachment_simps)

text \<open>
  C2. In a reply without an inline image, when the message replied to has no qualifying
  attachment (or is not available as a message), the resolver replies \<open>no_images\<close> and the
  command returns; that reply is the only call made, so the history is never read. The
  same holds of the whole command once the gate is passed.
\<close>

theorem reply_without_images_fails:
  assumes "ctx_reference ctx = Some r"
    and "\<not> image_in_command ctx url_arg"
    and "\<forall>m. r = ResolvedMessage m \<longrightarrow> get_image_attachments m = []"
  shows "sauce_resolve ctx col url_arg w =
           (Ended Returned, call (Reply (BasicEmbed ''no_images'') None) w)
    \<and> (discord_channel_id cfg = Some target \<and> sublist (str_nat (channel_id ctx)) target
         \<and> author_id ctx \<noteq> bot_user_id ctx
       \<longrightarrow> sauce cfg ctx col url_arg w =
             (Returned, call (Reply (BasicEmbed ''no_images'') None) w))"
proof -
  have "sauce_resolve ctx col url_arg w =
          (Ended Returned, call (Reply (BasicEmbed ''no_images'') None) w)"
    using assms
    by (cases r)
      (auto simp add: sauce_resolve_def sauce_reference_def image_in_command_def no_images_reply_def)
  then show ?thesis by (simp add: sauce_def)
qed

text \<open>Witness of C2: a reply to a message without attachments, in the target channel.\<close>

theorem reply_without_images_fails_witness:
  "ctx_reference (example_context [] (Some (ResolvedMessage (example_message []))))
     = Some (ResolvedMessage (example_message []))
   \<and> \<not> image_in_command (example_context [] (Some (ResolvedMessage (example_message [])))) None
   \<and> get_image_attachments (example_message []) = []
   \<and> sauce_resolve (example_context [] (Some (ResolvedMessage (example_message []))))
        example_collaborators None fresh_world
       = (Ended Returned, call (Reply (BasicEmbed ''no_images'') None) fresh_world)
   \<and> sauce example_config (example_context [] (Some (ResolvedMessage (example_message []))))
        example_collaborators None fresh_world
       = (Returned, call (Reply (BasicEmbed ''no_images'') None) fresh_world)"
proof -
  have a: "ctx_reference (example_context [] (Some (ResolvedMessage (example_message []))))
     = Some (ResolvedMessage (example_message []))"
    by (simp add: example_context_def)
  have b: "\<not> image_in_command (example_context [] (Some (ResolvedMessage (example_message [])))) None"
    by (simp add: examples image_in_command_def get_image_attachments_def)
  have c: "get_image_attachments (example_message []) = []"
    by (simp add: examples get_image_attachments_def)
  have d: "\<forall>m. ResolvedMessage (example_message []) = ResolvedMessage m \<longrightarrow> get_image_attachments m = []"
    using c by simp
  have g: "discord_channel_id example_config = Some ''42''
      \<and> sublist (str_nat (channel_id (example_context [] (Some (ResolvedMessage (example_message [])))))) ''42''
      \<and> author_id (example_context [] (Some (ResolvedMessage (example_message []))))
          \<noteq> bot_user_id (example_context [] (Some (ResolvedMessage (example_message []))))"
    by (simp add: example_config_def example_context_def str_nat_42)
  show ?thesis
    using a b c g
      reply_without_images_fails [OF a b d, of example_collaborators fresh_world example_config "''42''"]
    by simp
qed

subsection \<open>The disambiguation prompt\<close>

text \<open>
  The prompt offers the keycaps 1 to \<open>min n 10\<close>, waits, and deletes the prompt; on a timeout
  it deletes the command message first.
\<close>

lemma index_prompt_calls:
  "calls (snd (index_prompt ctx col items w)) =
     calls w @ PromptSend # map (\<lambda>i. AddReaction (Keycap i)) [1 ..< min (length items) 10 + 1]
       @ WaitFor 60 #
       (case wait_for (reaction_check [author_id ctx]
                 (map Keycap [1 ..< min (length items) 10 + 1])) (reaction_events col) of
          None \<Rightarrow> [MessageDelete, PromptDelete]
        | Some r \<Rightarrow> [PromptDelete])"
  by (simp add: index_prompt_def Let_def fold_call call_def keycap_emoji_eq comp_def
      del: upt_Suc split: option.splits sum.splits)

lemma index_prompt_offers: "length [1 ..< min (length items) 10 + 1] = min (length items) 10"
  by (simp del: upt_Suc)

text \<open>
  The first reaction of the invoking user with an offered keycap, the \<open>k\<close>-th, selects the
  \<open>k\<close>-th item.
\<close>

lemma index_prompt_selects:
  assumes "wait_for (reaction_check [author_id ctx] (map Keycap [1 ..< min (length items) 10 + 1]))
             (reaction_events col) = Some r"
  shows "\<exists>k. reaction_emoji r = Keycap k \<and> reaction_user r = author_id ctx
           \<and> 1 \<le> k \<and> k \<le> min (length items) 10
           \<and> fst (index_prompt ctx col items w) = Inr (Some (items ! (k - 1)))"
proof -
  have "reaction_check [author_id ctx] (map Keycap [1 ..< min (length items) 10 + 1]) r"
    using assms by (auto simp add: wait_for_def find_Some_iff)
  then have "\<exists>k. reaction_emoji r = Keycap k \<and> reaction_user r = author_id ctx
      \<and> 1 \<le> k \<and> k \<le> min (length items) 10"
    by (auto simp add: reaction_check_def simp del: upt_Suc)
  then obtain k where k: "reaction_emoji r = Keycap k" "reaction_user r = author_id ctx"
      "1 \<le> k" "k \<le> min (length items) 10"
    by blast
  then have "py_index items (int k - 1) = Inr (items ! (k - 1))"
    by (auto simp add: py_index_def nat_diff_distrib')
  then have "fst (index_prompt ctx col items w) = Inr (Some (items ! (k - 1)))"
    using assms k by (simp add: index_prompt_def Let_def keycap_emoji_eq del: upt_Suc)
  then show ?thesis using k by blast
qed

lemma index_prompt_timeout:
  assumes "wait_for (reaction_check [author_id ctx] (map Keycap [1 ..< min (length items) 10 + 1]))
             (reaction_events col) = None"
  shows "index_prompt ctx col items w =
     (Inr None,
      w\<lparr>calls := calls w @ PromptSend #
         map (\<lambda>i. AddReaction (Keycap i)) [1 ..< min (length items) 10 + 1]
         @ [WaitFor 60, MessageDelete, PromptDelete]\<rparr>)"
  using assms
  by (simp add: index_prompt_def Let_def keycap_emoji_eq fold_call call_def comp_def del: upt_Suc)

text \<open>
  C3, where the code departs from it. In a reply without an inline image to a message with
  more than one qualifying attachment, when no reaction of the invoking user with an
  offered keycap arrives in time: the keycaps 1 to \<open>min n 10\<close> are offered, the command
  message and the prompt are deleted, and then the command raises AttributeError, reading
  \<open>.url\<close> of the None that the prompt returned.
\<close>

theorem prompt_timeout_raises:
  assumes "ctx_reference ctx = Some (ResolvedMessage m)"
    and "\<not> image_in_command ctx url_arg"
    and "length (get_image_attachments m) > 1"
    and "wait_for (reaction_check [author_id ctx]
            (map Keycap [1 ..< min (length (get_image_attachments m)) 10 + 1]))
           (reaction_events col) = None"
  shows "sauce_resolve ctx col url_arg w =
     (Ended (Raised AttributeError),
      w\<lparr>calls := calls w @ PromptSend #
         map (\<lambda>i. AddReaction (Keycap i)) [1 ..< min (length (get_image_attachments m)) 10 + 1]
         @ [WaitFor 60, MessageDelete, PromptDelete]\<rparr>)"
proof -
  have "get_image_attachments m \<noteq> []"
    using assms(3) by auto
  then show ?thesis
    using assms(1-3) index_prompt_timeout [OF assms(4), of w]
    by (simp add: sauce_resolve_def sauce_reference_def Let_def del: upt_Suc)
qed

text \<open>
  C3 at a failing input: a reply to a message with the two images \<open>b.jpg\<close> and \<open>c.png\<close>, and
  no reaction at all.
\<close>

theorem prompt_timeout_raises_witness:
  "ctx_reference (example_context [] (Some (ResolvedMessage (example_message [b_jpg, c_png]))))
     = Some (ResolvedMessage (example_message [b_jpg, c_png]))
   \<and> \<not> image_in_command (example_context [] (Some (ResolvedMessage (example_message [b_jpg, c_png])))) None
   \<and> get_image_attachments (example_message [b_jpg, c_png]) = [b_jpg, c_png]
   \<and> reaction_events example_collaborators = []
   \<and> sauce_resolve (example_context [] (Some (ResolvedMessage (example_message [b_jpg, c_png]))))
        example_collaborators None fresh_world
      = (Ended (Raised AttributeError),
         fresh_world\<lparr>calls := [PromptSend, AddReaction (Keycap 1), AddReaction (Keycap 2), WaitFor 60,
            MessageDelete, PromptDelete]\<rparr>)"
proof -
  have a: "ctx_reference (example_context [] (Some (ResolvedMessage (example_message [b_jpg, c_png]))))
     = Some (ResolvedMessage (example_message [b_jpg, c_png]))"
    by (simp add: example_context_def)
  have b: "\<not> image_in_command (example_context [] (Some (ResolvedMessage (example_message [b_jpg, c_png])))) None"
    by (simp add: examples image_in_command_def get_image_attachments_def)
  have c: "get_image_attachments (example_message [b_jpg, c_png]) = [b_jpg, c_png]"
    by (simp add: examples attachment_simps)
  have d: "length (get_image_attachments (example_message [b_jpg, c_png])) > 1"
    using c by simp
  have e: "reaction_events example_collaborators = []"
    by (simp add: example_collaborators_def)
  have f: "wait_for (reaction_check
        [author_id (example_context [] (Some (ResolvedMessage (example_message [b_jpg, c_png]))))]
        (map Keycap [1 ..< min (length (get_image_attachments (example_message [b_jpg, c_png]))) 10 + 1]))
      (reaction_events example_collaborators) = None"
    using e by (simp add: wait_for_def)
  have g: "[1 ..< min (length (get_image_attachments (example_message [b_jpg, c_png]))) 10 + 1] = [1, 2]"
    using c by (simp add: upt_rec)
  show ?thesis
    using a b c e prompt_timeout_raises [OF a b d f, of fresh_world]
    by (simp add: g fresh_world_def)
qed

text \<open>The whole command at that input, and the search of the history: both raise.\<close>

lemma sauce_prompt_timeout_example:
  "sauce example_config (example_context [] (Some (ResolvedMessage (example_message [b_jpg, c_png]))))
     example_collaborators None fresh_world
   = (Raised AttributeError,
      fresh_world\<lparr>calls := [PromptSend, AddReaction (Keycap 1), AddReaction (Keycap 2), WaitFor 60,
         MessageDelete, PromptDelete]\<rparr>)"
  by (simp add: sauce_def str_nat_42 sauce_resolve_def sauce_reference_def image_in_command_def
      examples attachment_simps index_prompt_def call_def wait_for_def keycap_emoji_def)

lemma history_prompt_timeout_example:
  "fst (get_last_image_post (example_context [] None)
     (example_collaborators\<lparr>channel_messages := [example_message [b_jpg, c_png]]\<rparr>) fresh_world)
   = Inl AttributeError"
  by (simp add: get_last_image_post_def examples attachment_simps index_prompt_def call_def
      wait_for_def keycap_emoji_def)

subsection \<open>Video attachments\<close>

lemma video_attachment_image:
  assumes "url a \<noteq> []"
    and "\<not> endswith (url a) [''.jpg'', ''.png'', ''.gif'', ''.jpeg'', ''.webp'']"
    and "endswith (url a) [''.mp4'', ''.webm'', ''.mov'']"
  shows "get_attachment_image a = Some (proxy_url a @ ''?format=jpeg'')"
  using assms by (simp add: get_attachment_image_def)

text \<open>The search of the history translates the single attachment of the newest message.\<close>

lemma history_single_attachment:
  assumes "get_image_attachments m = [a]"
  shows "fst (get_last_image_post ctx (col\<lparr>channel_messages := m # ms\<rparr>) w) = Inr (get_attachment_image a)"
  using assms by (simp add: get_last_image_post_def)

text \<open>
  C7, where the code departs from it. In a reply without an inline image to a message with
  exactly one qualifying attachment, the resolver yields that attachment's own URL, for a
  video too; the translation to the proxy URL is not applied on this path.
\<close>

theorem reply_video_raw_url:
  assumes "ctx_reference ctx = Some (ResolvedMessage m)"
    and "\<not> image_in_command ctx url_arg"
    and "get_image_attachments m = [a]"
  shows "sauce_resolve ctx col url_arg w = (Resolved (url a), w)"
proof -
  have "truthy (get_attachment_image a)"
    using assms(3) by (metis filter_eq_ConsD get_image_attachments_def)
  then have "url a \<noteq> []"
    by (auto simp add: get_attachment_image_def split: if_splits)
  then show ?thesis
    using assms by (simp add: sauce_resolve_def sauce_reference_def)
qed

text \<open>
  C7 at a failing input: a reply to a message whose single attachment is the video
  \<open>v.mp4\<close>. The reply path yields the raw URL, where the translation is the proxy URL with
  \<open>?format=jpeg\<close>.
\<close>

theorem reply_video_raw_url_witness:
  "ctx_reference (example_context [] (Some (ResolvedMessage (example_message [v_mp4]))))
     = Some (ResolvedMessage (example_message [v_mp4]))
   \<and> \<not> image_in_command (example_context [] (Some (ResolvedMessage (example_message [v_mp4])))) None
   \<and> get_image_attachments (example_message [v_mp4]) = [v_mp4]
   \<and> get_attachment_image v_mp4 = Some ''https://media/v.mp4?format=jpeg''
   \<and> sauce_resolve (example_context [] (Some (ResolvedMessage (example_message [v_mp4]))))
        example_collaborators None fresh_world = (Resolved ''https://cdn/v.mp4'', fresh_world)"
proof -
  have a: "ctx_reference (example_context [] (Some (ResolvedMessage (example_message [v_mp4]))))
     = Some (ResolvedMessage (example_message [v_mp4]))"
    by (simp add: example_context_def)
  have b: "\<not> image_in_command (example_context [] (Some (ResolvedMessage (example_message [v_mp4])))) None"
    by (simp add: examples image_in_command_def get_image_attachments_def)
  have c: "get_image_attachments (example_message [v_mp4]) = [v_mp4]"
    by (simp add: examples attachment_simps)
  have d: "get_attachment_image v_mp4 = Some ''https://media/v.mp4?format=jpeg''"
    by (simp add: examples attachment_simps)
  have e: "url v_mp4 = ''https://cdn/v.mp4''"
    by (simp add: v_mp4_def)
  show ?thesis
    using a b c d reply_video_raw_url [OF a b c, of example_collaborators fresh_world]
    by (simp add: e)
qed

text \<open>The same message found by the search of the history resolves to the translation.\<close>

lemma history_video_example:
  "fst (sauce_resolve (example_context [] None)
        (example_collaborators\<lparr>channel_messages := [example_message [v_mp4]]\<rparr>) None fresh_world)
       = Resolved ''https://media/v.mp4?format=jpeg''"
  by (simp add: sauce_resolve_def image_in_command_def get_last_image_post_def
      examples attachment_simps call_def)

subsection \<open>What the resolution leaves untouched\<close>

lemma untouched_refl: "untouched w w"
  by (simp add: untouched_def)

lemma untouched_call: "\<not> lookup_call c \<Longrightarrow> untouched w w' \<Longrightarrow> untouched w (call c w')"
  by (simp add: untouched_def call_def)

lemma untouched_fold_reactions:
  "untouched w w' \<Longrightarrow> untouched w (fold (\<lambda>index. call (AddReaction (f index))) xs w')"
  by (induction xs arbitrary: w') (simp_all add: untouched_call)

lemma untouched_index_prompt:
  "index_prompt ctx col items w' = (r, w'') \<Longrightarrow> untouched w w' \<Longrightarrow> untouched w w''"
  by (auto simp add: index_prompt_def Let_def untouched_call untouched_fold_reactions
      split: option.splits sum.splits)

lemma untouched_last_image_loop:
  "last_image_loop ctx col ms w' = (r, w'') \<Longrightarrow> untouched w w' \<Longrightarrow> untouched w w''"
proof (induction ms)
  case Nil
  then show ?case by simp
next
  case (Cons m ms)
  then show ?case
    by (auto simp add: Let_def split: prod.splits sum.splits option.splits if_splits
        dest: untouched_index_prompt)
qed

lemma untouched_get_last_image_post:
  "get_last_image_post ctx col w' = (r, w'') \<Longrightarrow> untouched w w' \<Longrightarrow> untouched w w''"
  unfolding get_last_image_post_def
  by (erule untouched_last_image_loop) (simp add: untouched_call)

lemma untouched_sauce_reference:
  "sauce_reference ctx col url_arg w' = (r, w'') \<Longrightarrow> untouched w w' \<Longrightarrow> untouched w w''"
  by (auto simp add: sauce_reference_def Let_def
      split: prod.splits sum.splits option.splits resolved.splits if_splits
      dest: untouched_index_prompt)

lemma untouched_sauce_resolve:
  "sauce_resolve ctx col url_arg w = (r, w'') \<Longrightarrow> untouched w w''"
  by (auto simp add: sauce_resolve_def no_images_reply_def untouched_call untouched_refl
      split: prod.splits sum.splits option.splits if_splits
      dest!: untouched_sauce_reference [where w = w] untouched_get_last_image_post [where w = w])

subsection \<open>The member limit\<close>

lemma check_member_limited_world:
  "check_member_limited cfg ctx w = (b, w') \<Longrightarrow> untouched w w'"
  by (auto simp add: check_member_limited_def Let_def untouched_refl untouched_call split: if_splits)

lemma user_count_untouched: "untouched w w' \<Longrightarrow> user_count a w' = user_count a w"
  by (simp add: untouched_def user_count_def)

lemma check_member_limited_untouched:
  "untouched w w' \<Longrightarrow> fst (check_member_limited cfg ctx w') = fst (check_member_limited cfg ctx w)"
  by (simp add: check_member_limited_def Let_def user_count_untouched)

lemma sauce_lookup_limited:
  assumes "fst (check_member_limited cfg ctx w)"
  shows "untouched w (snd (sauce_lookup cfg ctx col url_arg u w))"
  using assms
  by (auto simp add: sauce_lookup_def untouched_call untouched_refl split: prod.splits
      dest: check_member_limited_world)

lemma sauce_limited:
  assumes "fst (check_member_limited cfg ctx w)"
  shows "untouched w (snd (sauce cfg ctx col url_arg w))"
proof (cases "sauce_resolve ctx col url_arg w")
  case (Pair r w1)
  then have u: "untouched w w1" by (rule untouched_sauce_resolve)
  then have "fst (check_member_limited cfg ctx w1)"
    using assms by (simp add: check_member_limited_untouched)
  then have "untouched w1 (snd (sauce_lookup cfg ctx col url_arg v w1))" for v
    by (rule sauce_lookup_limited)
  then have "untouched w (snd (sauce_lookup cfg ctx col url_arg v w1))" for v
    using u by (simp add: untouched_def)
  then show ?thesis using Pair u
    by (auto simp add: sauce_def untouched_refl split: option.splits resolution.splits)
qed

text \<open>
  C4. With the member limit unset or 0 the member check does not reject, whatever the
  user's logged queries. With a positive limit \<open>n\<close> and at least \<open>n\<close> logged queries of
  the author the check rejects: a resolved, valid URL gets the reply
  \<open>member_api_limit_exceeded\<close> and nothing more, and the whole command, however it ends,
  logs no query and makes no call of the lookup service.
\<close>

theorem member_limit:
  "(member_api_limit cfg = None \<or> member_api_limit cfg = Some 0
      \<longrightarrow> \<not> fst (check_member_limited cfg ctx w))
   \<and> (member_api_limit cfg = Some n \<and> 0 < n \<and> n \<le> user_count (author_id ctx) w
      \<longrightarrow> fst (check_member_limited cfg ctx w)
        \<and> (validate_url col u \<longrightarrow>
             sauce_lookup cfg ctx col url_arg u w =
               (Returned, call (Reply (BasicEmbed ''member_api_limit_exceeded'') None)
                            (call (UserCount (author_id ctx)) w)))
        \<and> queries (snd (sauce cfg ctx col url_arg w)) = queries w
        \<and> filter lookup_call (calls (snd (sauce cfg ctx col url_arg w))) = filter lookup_call (calls w))"
proof (intro conjI impI)
  assume "member_api_limit cfg = None \<or> member_api_limit cfg = Some 0"
  then show "\<not> fst (check_member_limited cfg ctx w)"
    by (auto simp add: check_member_limited_def)
next
  assume a: "member_api_limit cfg = Some n \<and> 0 < n \<and> n \<le> user_count (author_id ctx) w"
  then show l: "fst (check_member_limited cfg ctx w)"
    by (simp add: check_member_limited_def Let_def)
  have "untouched w (snd (sauce cfg ctx col url_arg w))"
    using l by (rule sauce_limited)
  then show "queries (snd (sauce cfg ctx col url_arg w)) = queries w"
    and "filter lookup_call (calls (snd (sauce cfg ctx col url_arg w))) = filter lookup_call (calls w)"
    by (simp_all add: untouched_def)
  assume "validate_url col u"
  then show "sauce_lookup cfg ctx col url_arg u w =
               (Returned, call (Reply (BasicEmbed ''member_api_limit_exceeded'') None)
                            (call (UserCount (author_id ctx)) w))"
    using a by (simp add: sauce_lookup_def check_member_limited_def Let_def)
qed

text \<open>
  Witness of C4: five logged queries of user 7. Without a limit the check passes; with
  the limit 5 the sixth invocation is rejected before any lookup.
\<close>

theorem member_limit_witness:
  "member_api_limit example_config = None
   \<and> user_count (author_id (example_context [] None)) (logged_world 7) = 5
   \<and> \<not> fst (check_member_limited example_config (example_context [] None) (logged_world 7))
   \<and> member_api_limit (example_config\<lparr>member_api_limit := Some 5\<rparr>) = Some 5
   \<and> fst (check_member_limited (example_config\<lparr>member_api_limit := Some 5\<rparr>)
        (example_context [] None) (logged_world 7))
   \<and> validate_url example_collaborators ''https://x/a.png''
   \<and> sauce_lookup (example_config\<lparr>member_api_limit := Some 5\<rparr>) (example_context [] None)
        example_collaborators (Some ''https://x/a.png'') ''https://x/a.png'' (logged_world 7)
      = (Returned, call (Reply (BasicEmbed ''member_api_limit_exceeded'') None)
                     (call (UserCount 7) (logged_world 7)))
   \<and> queries (snd (sauce (example_config\<lparr>member_api_limit := Some 5\<rparr>) (example_context [] None)
        example_collaborators (Some ''https://x/a.png'') (logged_world 7))) = queries (logged_world 7)
   \<and> filter lookup_call (calls (snd (sauce (example_config\<lparr>member_api_limit := Some 5\<rparr>)
        (example_context [] None) example_collaborators (Some ''https://x/a.png'') (logged_world 7)))) = []"
proof -
  have a: "member_api_limit example_config = None"
    by (simp add: example_config_def)
  have b: "user_count (author_id (example_context [] None)) (logged_world 7) = 5"
    by (simp add: user_count_def examples)
  have c: "member_api_limit (example_config\<lparr>member_api_limit := Some 5\<rparr>) = Some 5"
    by simp
  have d: "validate_url example_collaborators ''https://x/a.png''"
    by (simp add: example_collaborators_def)
  have e: "author_id (example_context [] None) = 7" "calls (logged_world 7) = []"
    by (simp_all add: examples)
  show ?thesis
    using a b c d
      member_limit [where cfg = example_config and ctx = "example_context [] None"
        and w = "logged_world 7"]
      member_limit [where cfg = "example_config\<lparr>member_api_limit := Some 5\<rparr>"
        and ctx = "example_context [] None" and w = "logged_world 7" and n = 5
        and col = example_collaborators and u = "''https://x/a.png''"
        and url_arg = "Some ''https://x/a.png''"]
    by (simp add: e)
qed

subsection \<open>The cache\<close>

lemma containers_getattr_class_name: "containers_getattr (class_name v) = Inr v"
  by (cases v) (simp_all add: containers_getattr_def)

text \<open>
  C5. After a result is written to the cache under a URL, the fetch of that URL finds an
  entry whose reconstruction is the result written, variant tag, header and payload; and
  the lookup of that URL returns it.
\<close>

theorem cache_round_trip:
  "(\<exists>e. fst (cache_fetch u (add_or_update u s w)) = Some e \<and> reconstruct e = Inr s)
   \<and> fst (get_sauce cfg ctx col u (add_or_update u s w)) = Inr (Some s)"
  by (simp add: cache_fetch_def get_sauce_def lookup_guild_def queries_log_def Let_def
      add_or_update_def call_def reconstruct_def containers_getattr_class_name container_def)

text \<open>Witness of C5: the anime result, read back while the remote service is failing.\<close>

theorem cache_round_trip_witness:
  "from_url failing_collaborators ''https://x/a.png'' (Some ''shared'') = Inl DailyLimitReachedException
   \<and> fst (get_sauce example_config (example_context [] None) failing_collaborators ''https://x/a.png''
        (add_or_update ''https://x/a.png'' anime_result fresh_world)) = Inr (Some anime_result)"
  using cache_round_trip [of "''https://x/a.png''" anime_result fresh_world example_config
      "example_context [] None" failing_collaborators]
  by (simp add: failing_collaborators_def)

subsection \<open>The order of the lookup\<close>

text \<open>
  C6. Every lookup appends the query (URL, user, guild) to the log, whatever its result,
  also when it raises; its calls are the guild's key, the log, the cache fetch, in that
  order, then on a miss the remote search (followed by the cache write when the search
  found something), and on a hit nothing more.
\<close>

theorem get_sauce_order:
  "queries (snd (get_sauce cfg ctx col u w)) =
     queries w @ [\<lparr>query_user = author_id ctx, query_guild = guild_id ctx, query_url = u,
                   query_time = clock w\<rparr>]
   \<and> calls (snd (get_sauce cfg ctx col u w)) =
       calls w @ [LookupGuild (guild_id ctx), QueriesLog (author_id ctx) (guild_id ctx) u, CacheFetch u]
        @ (let api_key = (if truthy (servers w (guild_id ctx)) then servers w (guild_id ctx)
                          else saucenao_api_key cfg)
           in case cache w u of
                Some entry \<Rightarrow> []
              | None \<Rightarrow> FromUrl u api_key #
                  (case from_url col u api_key of
                     Inr (s # rest) \<Rightarrow> [CacheAddOrUpdate u]
                   | _ \<Rightarrow> []))"
  by (simp add: cache_fetch_def get_sauce_def lookup_guild_def queries_log_def Let_def
      add_or_update_def call_def split: option.splits sum.splits list.splits)

text \<open>
  Witness of C6: a miss whose remote search raises keeps the logged query; a hit makes
  no remote call.
\<close>

theorem get_sauce_order_witness:
  "fst (get_sauce example_config (example_context [] None) failing_collaborators ''https://x/a.png''
      fresh_world) = Inl DailyLimitReachedException
   \<and> queries (snd (get_sauce example_config (example_context [] None) failing_collaborators
      ''https://x/a.png'' fresh_world))
     = [\<lparr>query_user = 7, query_guild = 3, query_url = ''https://x/a.png'', query_time = 0\<rparr>]
   \<and> calls (snd (get_sauce example_config (example_context [] None) failing_collaborators
      ''https://x/a.png'' fresh_world))
     = [LookupGuild 3, QueriesLog 7 3 ''https://x/a.png'', CacheFetch ''https://x/a.png'',
        FromUrl ''https://x/a.png'' (Some ''shared'')]
   \<and> calls (snd (get_sauce example_config (example_context [] None) failing_collaborators
      ''https://x/a.png'' (add_or_update ''https://x/a.png'' anime_result fresh_world)))
     = [CacheAddOrUpdate ''https://x/a.png'', LookupGuild 3, QueriesLog 7 3 ''https://x/a.png'',
        CacheFetch ''https://x/a.png'']"
proof -
  have r: "fst (get_sauce example_config (example_context [] None) failing_collaborators
      ''https://x/a.png'' fresh_world) = Inl DailyLimitReachedException"
    by (simp add: get_sauce_def lookup_guild_def queries_log_def cache_fetch_def call_def Let_def
        examples)
  show ?thesis
    using r
      get_sauce_order [of example_config "example_context [] None" failing_collaborators
        "''https://x/a.png''" fresh_world]
      get_sauce_order [of example_config "example_context [] None" failing_collaborators
        "''https://x/a.png''" "add_or_update ''https://x/a.png'' anime_result fresh_world"]
    by (simp add: examples add_or_update_def call_def)
qed

subsection \<open>The registration of a key\<close>

text \<open>What the format check accepts: forty alphanumerics, with or without a final line feed.\<close>

lemma re_api_key_match_iff:
  "re_api_key_match s \<longleftrightarrow>
     (length s = 40 \<and> list_all alnum s)
     \<or> (\<exists>t. s = t @ [newline] \<and> length t = 40 \<and> list_all alnum t)"
proof (cases "s \<noteq> [] \<and> last s = newline")
  case True
  then have s: "s = butlast s @ [newline]" by (metis append_butlast_last_id)
  show ?thesis using True s
    by (auto simp add: re_api_key_match_def dollar_candidates_def)
next
  case False
  then show ?thesis
    by (auto simp add: re_api_key_match_def dollar_candidates_def)
qed

text \<open>
  The three checks in their order, and the stored key: it changes only when all three
  pass, and then to the key supplied.
\<close>

lemma apikey_bad_format:
  "\<not> re_api_key_match k \<Longrightarrow>
     apikey ctx col k w = (Returned, call (Send (BasicEmbed ''bad_api_key'')) (call MessageDelete w))"
  by (simp add: apikey_def)

lemma apikey_calls:
  "re_api_key_match k \<Longrightarrow>
     calls (snd (apikey ctx col k w)) = calls w @ [MessageDelete, SauceNaoTest k] @
       (if \<not> test_success (saucenao_test col k) then [Send (BasicEmbed ''api_offline'')]
        else if test_account_type (saucenao_test col k) \<noteq> ACCOUNT_ENHANCED
        then [Send (BasicEmbed ''api_free'')]
        else [ServersRegister (guild_id ctx) k, Send (BasicEmbed ''registered_api_key'')])"
  by (simp add: apikey_def Let_def register_def call_def)

lemma apikey_servers:
  "servers (snd (apikey ctx col k w)) =
     (if re_api_key_match k \<and> test_success (saucenao_test col k)
         \<and> test_account_type (saucenao_test col k) = ACCOUNT_ENHANCED
      then (servers w)(guild_id ctx \<mapsto> k) else servers w)"
  by (simp add: apikey_def Let_def register_def call_def)

text \<open>
  C8, where the code departs from it. A string of forty alphanumerics followed by a line
  feed has 41 characters, yet it passes the format check (\<open>$\<close> matches before a final
  line feed): no \<open>bad_api_key\<close> reply is sent, the credential test is issued for it, and
  when the test reports an enhanced account the string is stored, line feed included, as
  the guild's key.
\<close>

theorem apikey_trailing_newline:
  assumes "length t = 40" and "list_all alnum t"
  shows "length (t @ [newline]) = 41
    \<and> calls (snd (apikey ctx col (t @ [newline]) w)) =
        calls w @ [MessageDelete, SauceNaoTest (t @ [newline])] @
          (if \<not> test_success (saucenao_test col (t @ [newline]))
           then [Send (BasicEmbed ''api_offline'')]
           else if test_account_type (saucenao_test col (t @ [newline])) \<noteq> ACCOUNT_ENHANCED
           then [Send (BasicEmbed ''api_free'')]
           else [ServersRegister (guild_id ctx) (t @ [newline]),
                 Send (BasicEmbed ''registered_api_key'')])
    \<and> servers (snd (apikey ctx col (t @ [newline]) w)) =
        (if test_success (saucenao_test col (t @ [newline]))
            \<and> test_account_type (saucenao_test col (t @ [newline])) = ACCOUNT_ENHANCED
         then (servers w)(guild_id ctx \<mapsto> t @ [newline]) else servers w)"
  using assms
  by (simp add: apikey_def re_api_key_match_def dollar_candidates_def Let_def register_def call_def)

text \<open>C8 at a failing input: forty letters \<open>a\<close> and a line feed, on an enhanced account.\<close>

theorem apikey_trailing_newline_witness:
  "length newline_key = 41
   \<and> test_success (saucenao_test example_collaborators newline_key)
   \<and> test_account_type (saucenao_test example_collaborators newline_key) = ACCOUNT_ENHANCED
   \<and> calls (snd (apikey (example_context [] None) example_collaborators newline_key fresh_world)) =
       [MessageDelete, SauceNaoTest newline_key, ServersRegister 3 newline_key,
        Send (BasicEmbed ''registered_api_key'')]
   \<and> servers (snd (apikey (example_context [] None) example_collaborators newline_key fresh_world)) 3
       = Some newline_key"
proof -
  have a: "length ''aaaaaaaaaaaaaaaaaaaaaaaaaaaaaaaaaaaaaaaa'' = 40"
    by simp
  have b: "list_all alnum ''aaaaaaaaaaaaaaaaaaaaaaaaaaaaaaaaaaaaaaaa''"
    by (simp add: alnum_def)
  have c: "test_success (saucenao_test example_collaborators
      (''aaaaaaaaaaaaaaaaaaaaaaaaaaaaaaaaaaaaaaaa'' @ [newline]))"
    by (simp add: example_collaborators_def)
  have d: "test_account_type (saucenao_test example_collaborators
      (''aaaaaaaaaaaaaaaaaaaaaaaaaaaaaaaaaaaaaaaa'' @ [newline])) = ACCOUNT_ENHANCED"
    by (simp add: example_collaborators_def)
  have e: "guild_id (example_context [] None) = 3" "calls fresh_world = []"
    by (simp_all add: examples)
  show ?thesis
    using c d apikey_trailing_newline [OF a b, of "example_context [] None" example_collaborators fresh_world]
    unfolding newline_key_def by (simp add: e)
qed

subsection \<open>The preview\<close>

text \<open>
  What the reconciler does withhold without raising: when the secondary service's search
  raises or returns no match, or when the identifiers load and the primary result's
  anilist identifier differs from that of the secondary service's top match, it returns
  no preview; and when the identifiers load, the lookup of a valid URL that found this
  result ends with the reply that shows it, without a clip.
\<close>

lemma preview_withheld:
  assumes "variant s = AnimeSource"
    and "(\<exists>e. tracemoe_search col u = Inl e) \<or> tracemoe_search col u = Inr []
       \<or> (\<exists>doc rest loaded. tracemoe_search col u = Inr (doc # rest)
             \<and> load_ids col s = Inr loaded
             \<and> anilist_id col s \<noteq> Some (doc_anilist_id doc))"
  shows "fst (video_preview cfg col s u w) = Inr (None, False)
    \<and> (validate_url col u \<and> \<not> fst (check_member_limited cfg ctx w)
        \<and> fst (get_sauce cfg ctx col u (snd (check_member_limited cfg ctx w))) = Inr (Some s)
        \<and> (\<exists>loaded. load_ids col s = Inr loaded)
       \<longrightarrow> fst (sauce_lookup cfg ctx col url_arg u w) = Returned
         \<and> Reply (SauceEmbed s) None \<in> set (calls (snd (sauce_lookup cfg ctx col url_arg u w))))"
proof -
  have v: "\<exists>w''. video_preview cfg col s u w' = (Inr (None, False), w'')" for w'
    using assms(2) by (auto simp add: video_preview_def Let_def)
  have p: "\<exists>w''. sauce_preview cfg ctx col (Some s) u w' = (Inr None, w'')" for w'
  proof -
    obtain w'' where "video_preview cfg col s u w' = (Inr (None, False), w'')"
      using v by blast
    then show ?thesis using assms(1) by (simp add: sauce_preview_def)
  qed
  have "fst (sauce_lookup cfg ctx col url_arg u w) = Returned
         \<and> Reply (SauceEmbed s) None \<in> set (calls (snd (sauce_lookup cfg ctx col url_arg u w)))"
    if valid: "validate_url col u" and free: "\<not> fst (check_member_limited cfg ctx w)"
      and found: "fst (get_sauce cfg ctx col u (snd (check_member_limited cfg ctx w))) = Inr (Some s)"
      and loads: "\<exists>loaded. load_ids col s = Inr loaded"
  proof -
    obtain w1 where c: "check_member_limited cfg ctx w = (False, w1)"
      using free by (cases "check_member_limited cfg ctx w") simp
    obtain w2 where g: "get_sauce cfg ctx col u w1 = (Inr (Some s), w2)"
      using found c by (cases "get_sauce cfg ctx col u w1") simp
    obtain w3 where q: "sauce_preview cfg ctx col (Some s) u w2 = (Inr None, w3)"
      using p by blast
    obtain w4 where e: "build_sauce_embed col s w3 = (Inr (SauceEmbed s), w4)"
      using assms(1) loads by (auto simp add: build_sauce_embed_def Let_def)
    show ?thesis
      using valid c g q e by (simp add: sauce_lookup_def Let_def call_def)
  qed
  then show ?thesis using v [of w] by auto
qed

text \<open>Primary identifier 100, secondary top match 200: no preview, and the reply is sent.\<close>

lemma preview_mismatch_example:
  "fst (video_preview example_config (anime_collaborators 200) anime_result ''https://x/a.png''
        fresh_world) = Inr (None, False)
   \<and> sauce example_config (example_context [] None) (anime_collaborators 200)
        (Some ''https://x/a.png'') fresh_world
      = (Returned,
         fresh_world\<lparr>queries := [\<lparr>query_user = 7, query_guild = 3, query_url = ''https://x/a.png'',
              query_time = 0\<rparr>],
           cache := [''https://x/a.png'' \<mapsto> \<lparr>result_class = ''AnimeSource'',
              cached_header = header anime_result, cached_result = data anime_result,
              created_at = 0\<rparr>],
           calls := [LookupGuild 3, QueriesLog 7 3 ''https://x/a.png'', CacheFetch ''https://x/a.png'',
             FromUrl ''https://x/a.png'' (Some ''shared''), CacheAddOrUpdate ''https://x/a.png'',
             TraceMoeSearch ''https://x/a.png'', LoadIds, LoadIds,
             Reply (SauceEmbed anime_result) None]\<rparr>)"
  by (simp add: sauce_def sauce_resolve_def sauce_lookup_def sauce_preview_def video_preview_def
      build_sauce_embed_def check_member_limited_def get_sauce_def lookup_guild_def queries_log_def
      cache_fetch_def add_or_update_def image_in_command_def call_def Let_def str_nat_42 examples)

text \<open>
  C9, where the code departs from it. Only the search is inside the \<open>try\<close>. When the
  secondary service is configured, its search finds the anime that the primary result's
  loaded anilist identifier names, and its download of the clip raises, the reconciler
  raises that exception; and the lookup of a valid URL that found this anime result ends
  with the exception, after the query is logged and the result cached, with no reply.
\<close>

theorem preview_download_raises:
  assumes "truthy (tracemoe_token cfg)"
    and "tracemoe_search col u = Inr (doc # rest)"
    and "load_ids col s = Inr True"
    and "anilist_id col s = Some (doc_anilist_id doc)"
    and "tracemoe_video_preview_natural col = Inl e"
  shows "video_preview cfg col s u w =
           (Inl e, call VideoPreviewNatural (call LoadIds (call (TraceMoeSearch u) w)))
    \<and> (variant s = AnimeSource \<and> validate_url col u \<and> \<not> fst (check_member_limited cfg ctx w)
        \<and> fst (get_sauce cfg ctx col u (snd (check_member_limited cfg ctx w))) = Inr (Some s)
       \<longrightarrow> sauce_lookup cfg ctx col url_arg u w =
             (Raised e,
              call VideoPreviewNatural (call LoadIds (call (TraceMoeSearch u)
                (snd (get_sauce cfg ctx col u (snd (check_member_limited cfg ctx w))))))))"
proof -
  have v: "video_preview cfg col s u w' =
             (Inl e, call VideoPreviewNatural (call LoadIds (call (TraceMoeSearch u) w')))" for w'
    using assms by (simp add: video_preview_def Let_def)
  have "sauce_lookup cfg ctx col url_arg u w =
             (Raised e,
              call VideoPreviewNatural (call LoadIds (call (TraceMoeSearch u)
                (snd (get_sauce cfg ctx col u (snd (check_member_limited cfg ctx w)))))))"
    if anime: "variant s = AnimeSource" and valid: "validate_url col u"
      and free: "\<not> fst (check_member_limited cfg ctx w)"
      and found: "fst (get_sauce cfg ctx col u (snd (check_member_limited cfg ctx w))) = Inr (Some s)"
  proof -
    obtain w1 where c: "check_member_limited cfg ctx w = (False, w1)"
      using free by (cases "check_member_limited cfg ctx w") simp
    obtain w2 where g: "get_sauce cfg ctx col u w1 = (Inr (Some s), w2)"
      using found c by (cases "get_sauce cfg ctx col u w1") simp
    have "sauce_preview cfg ctx col (Some s) u w2 =
            (Inl e, call VideoPreviewNatural (call LoadIds (call (TraceMoeSearch u) w2)))"
      using anime v [of w2] by (simp add: sauce_preview_def)
    then show ?thesis
      using valid c g by (simp add: sauce_lookup_def)
  qed
  then show ?thesis using v [of w] by blast
qed

text \<open>
  C9 at a failing input: both services name the anime 100, and the download of the clip
  raises. The command raises with it; its calls end with the download, and none is a
  reply.
\<close>

theorem preview_download_raises_witness:
  "variant anime_result = AnimeSource
   \<and> truthy (tracemoe_token example_config)
   \<and> tracemoe_search (anime_collaborators 100) ''https://x/a.png'' = Inr [tracemoe_match 100]
   \<and> load_ids (anime_collaborators 100) anime_result = Inr True
   \<and> anilist_id (anime_collaborators 100) anime_result = Some (doc_anilist_id (tracemoe_match 100))
   \<and> tracemoe_video_preview_natural (anime_collaborators 100) = Inl OtherException
   \<and> fst (video_preview example_config (anime_collaborators 100) anime_result ''https://x/a.png''
        fresh_world) = Inl OtherException
   \<and> fst (sauce_lookup example_config (example_context [] None) (anime_collaborators 100)
        (Some ''https://x/a.png'') ''https://x/a.png'' fresh_world) = Raised OtherException
   \<and> calls (snd (sauce_lookup example_config (example_context [] None) (anime_collaborators 100)
        (Some ''https://x/a.png'') ''https://x/a.png'' fresh_world))
       = [LookupGuild 3, QueriesLog 7 3 ''https://x/a.png'', CacheFetch ''https://x/a.png'',
          FromUrl ''https://x/a.png'' (Some ''shared''), CacheAddOrUpdate ''https://x/a.png'',
          TraceMoeSearch ''https://x/a.png'', LoadIds, VideoPreviewNatural]"
proof -
  have a: "variant anime_result = AnimeSource"
    by (simp add: anime_result_def)
  have t: "truthy (tracemoe_token example_config)"
    by (simp add: example_config_def)
  have s: "tracemoe_search (anime_collaborators 100) ''https://x/a.png'' = Inr [tracemoe_match 100]"
    by (simp add: examples)
  have l: "load_ids (anime_collaborators 100) anime_result = Inr True"
    by (simp add: examples)
  have i: "anilist_id (anime_collaborators 100) anime_result = Some (doc_anilist_id (tracemoe_match 100))"
    by (simp add: examples)
  have p: "tracemoe_video_preview_natural (anime_collaborators 100) = Inl OtherException"
    by (simp add: examples)
  have h: "validate_url (anime_collaborators 100) ''https://x/a.png''
     \<and> \<not> fst (check_member_limited example_config (example_context [] None) fresh_world)
     \<and> fst (get_sauce example_config (example_context [] None) (anime_collaborators 100) ''https://x/a.png''
          (snd (check_member_limited example_config (example_context [] None) fresh_world)))
        = Inr (Some anime_result)"
    by (simp add: check_member_limited_def get_sauce_def lookup_guild_def queries_log_def
        cache_fetch_def add_or_update_def call_def Let_def examples)
  have c: "calls (snd (get_sauce example_config (example_context [] None) (anime_collaborators 100)
        ''https://x/a.png''
        (snd (check_member_limited example_config (example_context [] None) fresh_world))))
     = [LookupGuild 3, QueriesLog 7 3 ''https://x/a.png'', CacheFetch ''https://x/a.png'',
        FromUrl ''https://x/a.png'' (Some ''shared''), CacheAddOrUpdate ''https://x/a.png'']"
    by (simp add: check_member_limited_def get_sauce_def lookup_guild_def queries_log_def
        cache_fetch_def add_or_update_def call_def Let_def examples)
  show ?thesis
    using a t s l i p h c
      preview_download_raises [OF t s l i p, of fresh_world "example_context [] None"
        "Some ''https://x/a.png''"]
    by (simp add: call_def)
qed

text \<open>The whole command at that input.\<close>

lemma sauce_download_failure_example:
  "fst (sauce example_config (example_context [] None) (anime_collaborators 100)
        (Some ''https://x/a.png'') fresh_world) = Raised OtherException
   \<and> calls (snd (sauce example_config (example_context [] None) (anime_collaborators 100)
        (Some ''https://x/a.png'') fresh_world))
       = [LookupGuild 3, QueriesLog 7 3 ''https://x/a.png'', CacheFetch ''https://x/a.png'',
          FromUrl ''https://x/a.png'' (Some ''shared''), CacheAddOrUpdate ''https://x/a.png'',
          TraceMoeSearch ''https://x/a.png'', LoadIds, VideoPreviewNatural]"
  by (simp add: sauce_def sauce_resolve_def sauce_lookup_def sauce_preview_def video_preview_def
      check_member_limited_def get_sauce_def lookup_guild_def queries_log_def cache_fetch_def
      add_or_update_def image_in_command_def call_def Let_def str_nat_42 examples)

end
